theory Spec2Isabelle
  imports Main "HOL-Library.Word"
begin

unbundle bit_operations_syntax

section \<open>PIPE_CONTROL flushing in the iris driver\<close>

text \<open>
  A shallow embedding of \<^verbatim>\<open>src/gallium/drivers/iris/iris_pipe_control.c\<close>.
  Every function of that file returns \<^verbatim>\<open>void\<close> and acts on a batch (or on the
  batches of a context) through a pointer, so each one is embedded as a function
  from the state it is handed to the state it leaves behind.
\<close>

subsection \<open>Declarations of iris_context.h, iris_batch.h and p_defines.h\<close>

text \<open>
  The file includes \<^verbatim>\<open>iris_context.h\<close>, which is not among the sources. The
  macros and enumerators it takes from there are therefore parameters of the
  embedding: one record holds a value for each name the C file mentions.
  \<^verbatim>\<open>PIPE_CONTROL_*\<close> are masks over the \<^verbatim>\<open>uint32_t flags\<close> argument,
  \<^verbatim>\<open>PIPE_BARRIER_*\<close> masks over the \<^verbatim>\<open>unsigned flags\<close> argument of the
  memory barrier, \<^verbatim>\<open>IRIS_BATCH_*\<close> indices into (and the size of) the array
  \<^verbatim>\<open>ice->batches\<close>.
\<close>

record iris_context_h =
  PIPE_CONTROL_CACHE_FLUSH_BITS :: "32 word"
  PIPE_CONTROL_CACHE_INVALIDATE_BITS :: "32 word"
  PIPE_CONTROL_CS_STALL :: "32 word"
  PIPE_CONTROL_WRITE_IMMEDIATE :: "32 word"
  PIPE_CONTROL_DEPTH_CACHE_FLUSH :: "32 word"
  PIPE_CONTROL_RENDER_TARGET_FLUSH :: "32 word"
  PIPE_CONTROL_DATA_CACHE_FLUSH :: "32 word"
  PIPE_CONTROL_TEXTURE_CACHE_INVALIDATE :: "32 word"
  PIPE_CONTROL_VF_CACHE_INVALIDATE :: "32 word"
  PIPE_CONTROL_CONST_CACHE_INVALIDATE :: "32 word"
  PIPE_BARRIER_VERTEX_BUFFER :: "32 word"
  PIPE_BARRIER_INDEX_BUFFER :: "32 word"
  PIPE_BARRIER_INDIRECT_BUFFER :: "32 word"
  PIPE_BARRIER_CONSTANT_BUFFER :: "32 word"
  PIPE_BARRIER_TEXTURE :: "32 word"
  PIPE_BARRIER_FRAMEBUFFER :: "32 word"
  IRIS_BATCH_RENDER :: nat
  IRIS_BATCH_COMPUTE :: nat
  IRIS_BATCH_COUNT :: nat

subsection \<open>Batches and the commands they hold\<close>

text \<open>
  \<^verbatim>\<open>struct iris_bo *\<close>: a pointer to a buffer object, \<^verbatim>\<open>NULL\<close> being \<open>None\<close>.
\<close>

type_synonym iris_bo_ptr = "nat option"

text \<open>
  One call of \<^verbatim>\<open>batch->vtbl->emit_raw_pipe_control(batch, flags, bo, offset, imm)\<close>,
  with the four arguments that follow the batch.
\<close>

record raw_pipe_control =
  pc_flags :: "32 word"
  pc_bo :: iris_bo_ptr
  pc_offset :: "32 word"
  pc_imm :: "64 word"

record iris_screen =
  workaround_bo :: iris_bo_ptr

text \<open>
  The fields of \<^verbatim>\<open>struct iris_batch\<close> that the file reads: \<^verbatim>\<open>screen\<close>,
  \<^verbatim>\<open>contains_draw\<close>, and the \<^verbatim>\<open>entries\<close> counters (\<^verbatim>\<open>uint32_t\<close>) of the hash
  table \<^verbatim>\<open>cache.render\<close> and of the set \<^verbatim>\<open>cache.depth\<close>. The field
  \<open>commands\<close> is the command stream of the batch: the raw PIPE_CONTROLs emitted
  into it so far, oldest first.
\<close>

record iris_batch =
  screen :: iris_screen
  contains_draw :: bool
  cache_render_entries :: "32 word"
  cache_depth_entries :: "32 word"
  commands :: "raw_pipe_control list"

text \<open>\<^verbatim>\<open>struct iris_context\<close>: the array \<^verbatim>\<open>batches[IRIS_BATCH_COUNT]\<close>.\<close>

record iris_context =
  batches :: "iris_batch list"

text \<open>
  Modelled from the spec: \<^verbatim>\<open>emit_raw_pipe_control\<close> is reached through the
  function table \<^verbatim>\<open>batch->vtbl\<close> and is defined in \<^verbatim>\<open>iris_state.c\<close>, which is not
  among the sources. The spec describes it as an opaque encoder that turns the
  flags and the optional write target it is given into one hardware command of
  the batch, and that never touches the indicators of outstanding work. Here it
  appends its arguments, as one entry, to the command stream of the batch.
\<close>

definition emit_raw_pipe_control ::
  "iris_batch \<Rightarrow> 32 word \<Rightarrow> iris_bo_ptr \<Rightarrow> 32 word \<Rightarrow> 64 word \<Rightarrow> iris_batch" where
  "emit_raw_pipe_control batch flags bo offset imm =
     batch\<lparr>commands := commands batch @
       [\<lparr>pc_flags = flags, pc_bo = bo, pc_offset = offset, pc_imm = imm\<rparr>]\<rparr>"

subsection \<open>The functions of iris_pipe_control.c\<close>

text \<open>\<^verbatim>\<open>iris_emit_pipe_control_write\<close> (lines 88-94).\<close>

definition iris_emit_pipe_control_write ::
  "iris_batch \<Rightarrow> 32 word \<Rightarrow> iris_bo_ptr \<Rightarrow> 32 word \<Rightarrow> 64 word \<Rightarrow> iris_batch" where
  "iris_emit_pipe_control_write batch flags bo offset imm =
     emit_raw_pipe_control batch flags bo offset imm"

text \<open>\<^verbatim>\<open>iris_emit_end_of_pipe_sync\<close> (lines 118-146).\<close>

definition iris_emit_end_of_pipe_sync ::
  "iris_context_h \<Rightarrow> iris_batch \<Rightarrow> 32 word \<Rightarrow> iris_batch" where
  "iris_emit_end_of_pipe_sync h batch flags =
     iris_emit_pipe_control_write batch
       (flags OR PIPE_CONTROL_CS_STALL h OR PIPE_CONTROL_WRITE_IMMEDIATE h)
       (workaround_bo (screen batch)) 0 0"

text \<open>
  \<^verbatim>\<open>iris_emit_pipe_control_flush\<close> (lines 57-78). The body of the \<^verbatim>\<open>if\<close> changes
  the batch (through the end-of-pipe sync) and the local \<^verbatim>\<open>flags\<close>; the pair
  bound by the \<open>let\<close> is their value after the \<^verbatim>\<open>if\<close> statement.
\<close>

definition iris_emit_pipe_control_flush ::
  "iris_context_h \<Rightarrow> iris_batch \<Rightarrow> 32 word \<Rightarrow> iris_batch" where
  "iris_emit_pipe_control_flush h batch flags =
     (let (batch', flags') =
        (if flags AND PIPE_CONTROL_CACHE_FLUSH_BITS h \<noteq> 0 \<and>
            flags AND PIPE_CONTROL_CACHE_INVALIDATE_BITS h \<noteq> 0
         then (iris_emit_end_of_pipe_sync h batch
                 (flags AND PIPE_CONTROL_CACHE_FLUSH_BITS h),
               flags AND NOT (PIPE_CONTROL_CACHE_FLUSH_BITS h OR PIPE_CONTROL_CS_STALL h))
         else (batch, flags))
      in emit_raw_pipe_control batch' flags' None 0 0)"

text \<open>
  A call \<^verbatim>\<open>f(&ice->batches[i], ...)\<close>: the callee works on element \<open>i\<close> of the
  array in place. In C the array has \<^verbatim>\<open>IRIS_BATCH_COUNT\<close> elements and every
  index the file uses is an enumerator or a loop counter below that bound; an
  index outside the array would be undefined behaviour. The properties below
  are stated for contexts whose array has that length.
\<close>

definition on_batch :: "nat \<Rightarrow> (iris_batch \<Rightarrow> iris_batch) \<Rightarrow> iris_context \<Rightarrow> iris_context" where
  "on_batch i f ice = ice\<lparr>batches := (batches ice)[i := f (batches ice ! i)]\<rparr>"

text \<open>
  \<^verbatim>\<open>iris_texture_barrier\<close> (lines 148-172). The argument \<^verbatim>\<open>flags\<close> is not used
  by the body.
\<close>

definition iris_texture_barrier ::
  "iris_context_h \<Rightarrow> iris_context \<Rightarrow> 32 word \<Rightarrow> iris_context" where
  "iris_texture_barrier h ice flags =
     (let render_batch = IRIS_BATCH_RENDER h;
          compute_batch = IRIS_BATCH_COMPUTE h;
          ice1 =
            (if contains_draw (batches ice ! render_batch) \<or>
                cache_render_entries (batches ice ! render_batch) \<noteq> 0 \<or>
                cache_depth_entries (batches ice ! render_batch) \<noteq> 0
             then
               on_batch (IRIS_BATCH_RENDER h)
                 (\<lambda>b. iris_emit_pipe_control_flush h b
                         (PIPE_CONTROL_TEXTURE_CACHE_INVALIDATE h))
                 (on_batch (IRIS_BATCH_RENDER h)
                    (\<lambda>b. iris_emit_pipe_control_flush h b
                            (PIPE_CONTROL_DEPTH_CACHE_FLUSH h OR
                             PIPE_CONTROL_RENDER_TARGET_FLUSH h OR
                             PIPE_CONTROL_CS_STALL h))
                    ice)
             else ice)
      in
        if contains_draw (batches ice1 ! compute_batch)
        then
          on_batch (IRIS_BATCH_COMPUTE h)
            (\<lambda>b. iris_emit_pipe_control_flush h b
                    (PIPE_CONTROL_TEXTURE_CACHE_INVALIDATE h))
            (on_batch (IRIS_BATCH_COMPUTE h)
               (\<lambda>b. iris_emit_pipe_control_flush h b (PIPE_CONTROL_CS_STALL h))
               ice1)
        else ice1)"

text \<open>
  The loop of \<^verbatim>\<open>iris_memory_barrier\<close> (lines 196-200), from the value \<open>i\<close> of its
  counter onwards.
\<close>

function memory_barrier_loop ::
  "iris_context_h \<Rightarrow> 32 word \<Rightarrow> nat \<Rightarrow> iris_context \<Rightarrow> iris_context" where
  "memory_barrier_loop h bits i ice =
     (if i < IRIS_BATCH_COUNT h
      then memory_barrier_loop h bits (i + 1)
             (if contains_draw (batches ice ! i) \<or>
                 cache_render_entries (batches ice ! i) \<noteq> 0
              then on_batch i (\<lambda>b. iris_emit_pipe_control_flush h b bits) ice
              else ice)
      else ice)"
  by pat_completeness auto

termination
  by (relation "measure (\<lambda>(h, bits, i, ice). IRIS_BATCH_COUNT h - i)") auto

declare memory_barrier_loop.simps [simp del]

text \<open>
  \<^verbatim>\<open>iris_memory_barrier\<close> (lines 174-201): \<open>bits0\<close> to \<open>bits3\<close> are the values of
  the local \<^verbatim>\<open>bits\<close> at its declaration and after each of the three \<^verbatim>\<open>if\<close>
  statements.
\<close>

definition iris_memory_barrier ::
  "iris_context_h \<Rightarrow> iris_context \<Rightarrow> 32 word \<Rightarrow> iris_context" where
  "iris_memory_barrier h ice flags =
     (let bits0 = PIPE_CONTROL_DATA_CACHE_FLUSH h OR PIPE_CONTROL_CS_STALL h;
          bits1 =
            (if flags AND (PIPE_BARRIER_VERTEX_BUFFER h OR
                           PIPE_BARRIER_INDEX_BUFFER h OR
                           PIPE_BARRIER_INDIRECT_BUFFER h) \<noteq> 0
             then bits0 OR PIPE_CONTROL_VF_CACHE_INVALIDATE h
             else bits0);
          bits2 =
            (if flags AND PIPE_BARRIER_CONSTANT_BUFFER h \<noteq> 0
             then bits1 OR (PIPE_CONTROL_TEXTURE_CACHE_INVALIDATE h OR
                            PIPE_CONTROL_CONST_CACHE_INVALIDATE h)
             else bits1);
          bits3 =
            (if flags AND (PIPE_BARRIER_TEXTURE h OR PIPE_BARRIER_FRAMEBUFFER h) \<noteq> 0
             then bits2 OR (PIPE_CONTROL_TEXTURE_CACHE_INVALIDATE h OR
                            PIPE_CONTROL_RENDER_TARGET_FLUSH h)
             else bits2)
      in memory_barrier_loop h bits3 0 ice)"

subsection \<open>What the missing headers are taken to satisfy\<close>

text \<open>
  Modelled from the spec: \<^verbatim>\<open>iris_batch.h\<close>, which declares the array
  \<^verbatim>\<open>batches[IRIS_BATCH_COUNT]\<close> and the enumerators \<^verbatim>\<open>IRIS_BATCH_RENDER\<close> and
  \<^verbatim>\<open>IRIS_BATCH_COMPUTE\<close>, is not among the sources. The spec speaks of the render
  batch and the compute batch as two independent streams among all the batches
  of the context: the array has \<^verbatim>\<open>IRIS_BATCH_COUNT\<close> elements, and the two
  enumerators index two different elements of it.
\<close>

definition batches_wf :: "iris_context_h \<Rightarrow> iris_context \<Rightarrow> bool" where
  "batches_wf h ice \<longleftrightarrow>
     length (batches ice) = IRIS_BATCH_COUNT h \<and>
     IRIS_BATCH_RENDER h < IRIS_BATCH_COUNT h \<and>
     IRIS_BATCH_COMPUTE h < IRIS_BATCH_COUNT h \<and>
     IRIS_BATCH_RENDER h \<noteq> IRIS_BATCH_COMPUTE h"

text \<open>
  Modelled from the spec: the values of the \<^verbatim>\<open>PIPE_CONTROL_*\<close> macros are not
  among the sources. The spec's data model partitions the flags into three
  disjoint categories: the flush bits, which include render-target, depth and
  data cache flush; the invalidate bits, which include texture, constant and
  vertex-fetch cache invalidate; and the control bits, to which the stall and
  write-immediate flags belong. Every named flag is a flag, that is, not zero.
\<close>

definition pipe_control_groups :: "iris_context_h \<Rightarrow> bool" where
  "pipe_control_groups h \<longleftrightarrow>
     PIPE_CONTROL_RENDER_TARGET_FLUSH h \<noteq> 0 \<and>
     PIPE_CONTROL_DEPTH_CACHE_FLUSH h \<noteq> 0 \<and>
     PIPE_CONTROL_DATA_CACHE_FLUSH h \<noteq> 0 \<and>
     PIPE_CONTROL_TEXTURE_CACHE_INVALIDATE h \<noteq> 0 \<and>
     PIPE_CONTROL_CONST_CACHE_INVALIDATE h \<noteq> 0 \<and>
     PIPE_CONTROL_VF_CACHE_INVALIDATE h \<noteq> 0 \<and>
     PIPE_CONTROL_CS_STALL h \<noteq> 0 \<and>
     PIPE_CONTROL_WRITE_IMMEDIATE h \<noteq> 0 \<and>
     PIPE_CONTROL_RENDER_TARGET_FLUSH h AND PIPE_CONTROL_CACHE_FLUSH_BITS h =
       PIPE_CONTROL_RENDER_TARGET_FLUSH h \<and>
     PIPE_CONTROL_DEPTH_CACHE_FLUSH h AND PIPE_CONTROL_CACHE_FLUSH_BITS h =
       PIPE_CONTROL_DEPTH_CACHE_FLUSH h \<and>
     PIPE_CONTROL_DATA_CACHE_FLUSH h AND PIPE_CONTROL_CACHE_FLUSH_BITS h =
       PIPE_CONTROL_DATA_CACHE_FLUSH h \<and>
     PIPE_CONTROL_TEXTURE_CACHE_INVALIDATE h AND PIPE_CONTROL_CACHE_INVALIDATE_BITS h =
       PIPE_CONTROL_TEXTURE_CACHE_INVALIDATE h \<and>
     PIPE_CONTROL_CONST_CACHE_INVALIDATE h AND PIPE_CONTROL_CACHE_INVALIDATE_BITS h =
       PIPE_CONTROL_CONST_CACHE_INVALIDATE h \<and>
     PIPE_CONTROL_VF_CACHE_INVALIDATE h AND PIPE_CONTROL_CACHE_INVALIDATE_BITS h =
       PIPE_CONTROL_VF_CACHE_INVALIDATE h \<and>
     PIPE_CONTROL_CACHE_FLUSH_BITS h AND PIPE_CONTROL_CACHE_INVALIDATE_BITS h = 0 \<and>
     (PIPE_CONTROL_CS_STALL h OR PIPE_CONTROL_WRITE_IMMEDIATE h) AND
       (PIPE_CONTROL_CACHE_FLUSH_BITS h OR PIPE_CONTROL_CACHE_INVALIDATE_BITS h) = 0"

subsection \<open>The behaviour the specification describes\<close>

text \<open>
  The flag set of the memory barrier in the words of the specification: start
  from data-cache flush and stall; add vertex-fetch invalidate if the scope
  includes vertex buffer, index buffer or indirect buffer; add texture and
  constant cache invalidate if it includes constant buffer; add texture cache
  invalidate and render-target flush if it includes texture or framebuffer. A
  scope includes a resource kind when it shares a bit with its mask.
\<close>

definition memory_barrier_bits_spec :: "iris_context_h \<Rightarrow> 32 word \<Rightarrow> 32 word" where
  "memory_barrier_bits_spec h scope =
     PIPE_CONTROL_DATA_CACHE_FLUSH h OR PIPE_CONTROL_CS_STALL h OR
     (if scope AND PIPE_BARRIER_VERTEX_BUFFER h \<noteq> 0 \<or>
         scope AND PIPE_BARRIER_INDEX_BUFFER h \<noteq> 0 \<or>
         scope AND PIPE_BARRIER_INDIRECT_BUFFER h \<noteq> 0
      then PIPE_CONTROL_VF_CACHE_INVALIDATE h else 0) OR
     (if scope AND PIPE_BARRIER_CONSTANT_BUFFER h \<noteq> 0
      then PIPE_CONTROL_TEXTURE_CACHE_INVALIDATE h OR PIPE_CONTROL_CONST_CACHE_INVALIDATE h
      else 0) OR
     (if scope AND PIPE_BARRIER_TEXTURE h \<noteq> 0 \<or> scope AND PIPE_BARRIER_FRAMEBUFFER h \<noteq> 0
      then PIPE_CONTROL_TEXTURE_CACHE_INVALIDATE h OR PIPE_CONTROL_RENDER_TARGET_FLUSH h
      else 0)"

text \<open>
  What the memory barrier does to one batch, in the words of the specification:
  one flush with the accumulated flags if the batch has pending work or pending
  render-cache entries, nothing otherwise.
\<close>

definition flush_or_skip :: "iris_context_h \<Rightarrow> 32 word \<Rightarrow> iris_batch \<Rightarrow> iris_batch" where
  "flush_or_skip h bits b =
     (if contains_draw b \<or> cache_render_entries b \<noteq> 0
      then iris_emit_pipe_control_flush h b bits else b)"

text \<open>
  The raw PIPE_CONTROLs that an operation \<open>f\<close> emits into a batch: what the
  command stream holds after \<open>f\<close> beyond what it held before.
\<close>

definition emitted_by :: "(iris_batch \<Rightarrow> iris_batch) \<Rightarrow> iris_batch \<Rightarrow> raw_pipe_control list" where
  "emitted_by f batch = drop (length (commands batch)) (commands (f batch))"

subsection \<open>Concrete inputs\<close>

text \<open>
  Modelled from the spec: one assignment of the macros of the missing headers,
  for evaluating the functions at concrete inputs. Every named flag is one bit
  of its own; the flush bits are the depth, data and render-target flush bits
  (\<open>0x1082000\<close>); the invalidate bits are the texture, vertex-fetch and constant
  invalidate bits and two further ones (\<open>0x70C000\<close>); the render batch is
  element 0 and the compute batch element 1 of an array of two.
\<close>

definition sample_h :: iris_context_h where
  "sample_h =
     \<lparr>PIPE_CONTROL_CACHE_FLUSH_BITS = 0x1082000,
      PIPE_CONTROL_CACHE_INVALIDATE_BITS = 0x70C000,
      PIPE_CONTROL_CS_STALL = 0x10,
      PIPE_CONTROL_WRITE_IMMEDIATE = 0x200,
      PIPE_CONTROL_DEPTH_CACHE_FLUSH = 0x1000000,
      PIPE_CONTROL_RENDER_TARGET_FLUSH = 0x2000,
      PIPE_CONTROL_DATA_CACHE_FLUSH = 0x80000,
      PIPE_CONTROL_TEXTURE_CACHE_INVALIDATE = 0x8000,
      PIPE_CONTROL_VF_CACHE_INVALIDATE = 0x100000,
      PIPE_CONTROL_CONST_CACHE_INVALIDATE = 0x200000,
      PIPE_BARRIER_VERTEX_BUFFER = 0x8,
      PIPE_BARRIER_INDEX_BUFFER = 0x10,
      PIPE_BARRIER_INDIRECT_BUFFER = 0x40,
      PIPE_BARRIER_CONSTANT_BUFFER = 0x20,
      PIPE_BARRIER_TEXTURE = 0x80,
      PIPE_BARRIER_FRAMEBUFFER = 0x200,
      IRIS_BATCH_RENDER = 0,
      IRIS_BATCH_COMPUTE = 1,
      IRIS_BATCH_COUNT = 2\<rparr>"

text \<open>
  A batch that contains a draw and one that does not, both with an empty command
  stream and the workaround buffer at address 4096.
\<close>

definition busy_batch :: iris_batch where
  "busy_batch = \<lparr>screen = \<lparr>workaround_bo = Some 4096\<rparr>, contains_draw = True,
     cache_render_entries = 0, cache_depth_entries = 0, commands = []\<rparr>"

definition idle_batch :: iris_batch where
  "idle_batch = \<lparr>screen = \<lparr>workaround_bo = Some 4096\<rparr>, contains_draw = False,
     cache_render_entries = 0, cache_depth_entries = 0, commands = []\<rparr>"

section \<open>Auxiliary facts\<close>

subsection \<open>Bit masks\<close>

lemma word_test_or:
  "(x AND (a OR b) \<noteq> 0) \<longleftrightarrow> (x AND a \<noteq> 0 \<or> x AND b \<noteq> 0)" for x :: "'a::len word"
  by (auto simp: bit_eq_iff bit_simps)

lemma word_sub_disjoint:
  "t AND i = t \<Longrightarrow> f AND i = 0 \<Longrightarrow> t AND f = 0" for t :: "'a::len word"
  by (auto simp: bit_eq_iff bit_simps)

lemma word_sub_nonzero:
  "x AND r = r \<Longrightarrow> r AND f = r \<Longrightarrow> r \<noteq> 0 \<Longrightarrow> x AND f \<noteq> 0" for r :: "'a::len word"
  by (auto simp: bit_eq_iff bit_simps)

lemma sync_flags_keep:
  "x AND r = r \<Longrightarrow> r AND f = r \<Longrightarrow> ((x AND f) OR s OR w) AND r = r"
  for r :: "'a::len word"
  by (auto simp: bit_eq_iff bit_simps)

lemma sync_flags_lack:
  "t AND f = 0 \<Longrightarrow> t AND s = 0 \<Longrightarrow> t AND w = 0 \<Longrightarrow> ((x AND f) OR s OR w) AND t = 0"
  for t :: "'a::len word"
  by (auto simp: bit_eq_iff bit_simps)

lemma rest_flags_keep:
  "x AND t = t \<Longrightarrow> t AND f = 0 \<Longrightarrow> t AND s = 0 \<Longrightarrow> (x AND NOT (f OR s)) AND t = t"
  for t :: "'a::len word"
  by (auto simp: bit_eq_iff bit_simps)

lemma rest_flags_lack:
  "r AND f = r \<Longrightarrow> (x AND NOT (f OR s)) AND r = 0" for r :: "'a::len word"
  by (auto simp: bit_eq_iff bit_simps)

subsection \<open>The loop of the memory barrier\<close>

lemma on_batch_batches:
  "batches (on_batch i f ice) = (batches ice)[i := f (batches ice ! i)]"
  by (simp add: on_batch_def)

lemma memory_barrier_loop_step:
  "i < IRIS_BATCH_COUNT h \<Longrightarrow>
   memory_barrier_loop h bits i ice =
     memory_barrier_loop h bits (Suc i) (on_batch i (flush_or_skip h bits) ice)"
  by (subst memory_barrier_loop.simps) (simp add: on_batch_def flush_or_skip_def)

lemma memory_barrier_loop_done:
  "\<not> i < IRIS_BATCH_COUNT h \<Longrightarrow> memory_barrier_loop h bits i ice = ice"
  by (subst memory_barrier_loop.simps) simp

text \<open>
  Started at \<open>i\<close>, the loop leaves the first \<open>i\<close> batches alone and treats each
  of the others once.
\<close>

lemma memory_barrier_loop_batches:
  "length (batches ice) = IRIS_BATCH_COUNT h \<Longrightarrow> i \<le> IRIS_BATCH_COUNT h \<Longrightarrow>
   memory_barrier_loop h bits i ice =
     ice\<lparr>batches := take i (batches ice) @ map (flush_or_skip h bits) (drop i (batches ice))\<rparr>"
proof (induction "IRIS_BATCH_COUNT h - i" arbitrary: i ice)
  case 0
  then have "i = length (batches ice)" by simp
  with 0 show ?case by (simp add: memory_barrier_loop_done)
next
  case (Suc n)
  then have lt: "i < IRIS_BATCH_COUNT h" by simp
  let ?ice' = "on_batch i (flush_or_skip h bits) ice"
  have len: "length (batches ?ice') = IRIS_BATCH_COUNT h"
    using Suc.prems by (simp add: on_batch_batches)
  have "memory_barrier_loop h bits (Suc i) ?ice' =
          ?ice'\<lparr>batches := take (Suc i) (batches ?ice') @
            map (flush_or_skip h bits) (drop (Suc i) (batches ?ice'))\<rparr>"
    using Suc.hyps(1)[of "Suc i" ?ice'] Suc.hyps(2) len lt by simp
  moreover have "take (Suc i) (batches ?ice') =
      take i (batches ice) @ [flush_or_skip h bits (batches ice ! i)]"
    using lt Suc.prems by (simp add: on_batch_batches take_Suc_conv_app_nth)
  moreover have "drop (Suc i) (batches ?ice') = drop (Suc i) (batches ice)"
    by (simp add: on_batch_batches)
  moreover have "drop i (batches ice) = batches ice ! i # drop (Suc i) (batches ice)"
    using lt Suc.prems by (simp add: Cons_nth_drop_Suc)
  ultimately show ?case
    using lt by (simp add: memory_barrier_loop_step on_batch_def)
qed

lemma memory_barrier_bits:
  "iris_memory_barrier h ice scope =
     memory_barrier_loop h (memory_barrier_bits_spec h scope) 0 ice"
  by (simp add: iris_memory_barrier_def memory_barrier_bits_spec_def Let_def word_test_or
      ac_simps)

lemma iris_memory_barrier_map:
  assumes "length (batches ice) = IRIS_BATCH_COUNT h"
  shows "iris_memory_barrier h ice scope =
     ice\<lparr>batches := map (flush_or_skip h (memory_barrier_bits_spec h scope)) (batches ice)\<rparr>"
  using memory_barrier_loop_batches [OF assms, of 0] by (simp add: memory_barrier_bits)

lemma texture_scope_bits:
  assumes "scope AND PIPE_BARRIER_TEXTURE h \<noteq> 0"
  shows "memory_barrier_bits_spec h scope AND PIPE_CONTROL_RENDER_TARGET_FLUSH h =
           PIPE_CONTROL_RENDER_TARGET_FLUSH h"
    and "memory_barrier_bits_spec h scope AND PIPE_CONTROL_TEXTURE_CACHE_INVALIDATE h =
           PIPE_CONTROL_TEXTURE_CACHE_INVALIDATE h"
  using assms by (auto simp: memory_barrier_bits_spec_def bit_eq_iff bit_simps)

lemma sample_h_groups: "pipe_control_groups sample_h"
  by (simp add: pipe_control_groups_def sample_h_def)

subsection \<open>The texture barrier\<close>

text \<open>
  The array of batches after the texture barrier: only the render and the
  compute element can differ from before.
\<close>

lemma texture_barrier_batches:
  assumes "batches_wf h ice"
  shows "batches (iris_texture_barrier h ice flags) =
     (batches ice)
       [IRIS_BATCH_RENDER h :=
          (if contains_draw (batches ice ! IRIS_BATCH_RENDER h) \<or>
              cache_render_entries (batches ice ! IRIS_BATCH_RENDER h) \<noteq> 0 \<or>
              cache_depth_entries (batches ice ! IRIS_BATCH_RENDER h) \<noteq> 0
           then iris_emit_pipe_control_flush h
                  (iris_emit_pipe_control_flush h (batches ice ! IRIS_BATCH_RENDER h)
                     (PIPE_CONTROL_DEPTH_CACHE_FLUSH h OR PIPE_CONTROL_RENDER_TARGET_FLUSH h OR
                      PIPE_CONTROL_CS_STALL h))
                  (PIPE_CONTROL_TEXTURE_CACHE_INVALIDATE h)
           else batches ice ! IRIS_BATCH_RENDER h),
        IRIS_BATCH_COMPUTE h :=
          (if contains_draw (batches ice ! IRIS_BATCH_COMPUTE h)
           then iris_emit_pipe_control_flush h
                  (iris_emit_pipe_control_flush h (batches ice ! IRIS_BATCH_COMPUTE h)
                     (PIPE_CONTROL_CS_STALL h))
                  (PIPE_CONTROL_TEXTURE_CACHE_INVALIDATE h)
           else batches ice ! IRIS_BATCH_COMPUTE h)]"
proof -
  have keep: "xs[r := a, c := xs ! c] = xs[r := a]"
    if "r \<noteq> c" for xs :: "iris_batch list" and r c a
    using that by (metis list_update_id nth_list_update_neq)
  show ?thesis
    using assms
    by (simp add: iris_texture_barrier_def batches_wf_def on_batch_def Let_def keep)
qed

section \<open>Properties\<close>

subsection \<open>Flushes\<close>

text \<open>
  C1: for every flag set \<open>F\<close> that holds at least one cache-flush bit and at
  least one cache-invalidate bit, \<^verbatim>\<open>iris_emit_pipe_control_flush\<close> emits exactly
  two raw PIPE_CONTROLs, in this order: the first with the flush bits of \<open>F\<close>
  together with CS_STALL and WRITE_IMMEDIATE, writing the value 0 at offset 0
  of the workaround buffer; the second with \<open>F\<close> less all flush bits and less
  CS_STALL, and with no write target.
\<close>

theorem flush_split:
  assumes "F AND PIPE_CONTROL_CACHE_FLUSH_BITS h \<noteq> 0"
    and "F AND PIPE_CONTROL_CACHE_INVALIDATE_BITS h \<noteq> 0"
  shows "iris_emit_pipe_control_flush h batch F =
     batch\<lparr>commands := commands batch @
       [\<lparr>pc_flags = (F AND PIPE_CONTROL_CACHE_FLUSH_BITS h) OR PIPE_CONTROL_CS_STALL h OR
                     PIPE_CONTROL_WRITE_IMMEDIATE h,
         pc_bo = workaround_bo (screen batch), pc_offset = 0, pc_imm = 0\<rparr>,
        \<lparr>pc_flags = F AND NOT (PIPE_CONTROL_CACHE_FLUSH_BITS h) AND NOT (PIPE_CONTROL_CS_STALL h),
         pc_bo = None, pc_offset = 0, pc_imm = 0\<rparr>]\<rparr>"
  using assms
  by (simp add: iris_emit_pipe_control_flush_def iris_emit_end_of_pipe_sync_def
      iris_emit_pipe_control_write_def emit_raw_pipe_control_def bit.de_Morgan_disj ac_simps)

text \<open>
  At data-cache flush, render-target flush, texture invalidate and stall
  together (\<open>0x8A010\<close>): an end-of-pipe sync with the two flush bits, then the
  texture invalidate alone.
\<close>

theorem flush_split_witness:
  "(0x8A010 :: 32 word) AND PIPE_CONTROL_CACHE_FLUSH_BITS sample_h \<noteq> 0 \<and>
   (0x8A010 :: 32 word) AND PIPE_CONTROL_CACHE_INVALIDATE_BITS sample_h \<noteq> 0 \<and>
   commands (iris_emit_pipe_control_flush sample_h busy_batch 0x8A010) =
     [\<lparr>pc_flags = 0x82210, pc_bo = Some 4096, pc_offset = 0, pc_imm = 0\<rparr>,
      \<lparr>pc_flags = 0x8000, pc_bo = None, pc_offset = 0, pc_imm = 0\<rparr>]"
proof -
  have a: "(0x8A010 :: 32 word) AND PIPE_CONTROL_CACHE_FLUSH_BITS sample_h \<noteq> 0"
    by (simp add: sample_h_def)
  have b: "(0x8A010 :: 32 word) AND PIPE_CONTROL_CACHE_INVALIDATE_BITS sample_h \<noteq> 0"
    by (simp add: sample_h_def)
  show ?thesis
    using a b flush_split [OF a b, of busy_batch]
    by (simp add: sample_h_def busy_batch_def)
qed

text \<open>
  C2: for every flag set \<open>F\<close> that does not hold both a flush bit and an
  invalidate bit (flush bits only, invalidate bits only, or neither),
  \<^verbatim>\<open>iris_emit_pipe_control_flush\<close> emits exactly one raw PIPE_CONTROL, with the
  flags \<open>F\<close> unchanged and no write target.
\<close>

theorem flush_no_split:
  assumes "\<not> (F AND PIPE_CONTROL_CACHE_FLUSH_BITS h \<noteq> 0 \<and>
               F AND PIPE_CONTROL_CACHE_INVALIDATE_BITS h \<noteq> 0)"
  shows "iris_emit_pipe_control_flush h batch F =
     batch\<lparr>commands := commands batch @
       [\<lparr>pc_flags = F, pc_bo = None, pc_offset = 0, pc_imm = 0\<rparr>]\<rparr>"
  using assms
  by (auto simp add: iris_emit_pipe_control_flush_def emit_raw_pipe_control_def)

text \<open>
  At depth flush, render-target flush and stall (\<open>0x1002010\<close>, flush bits only).
\<close>

theorem flush_no_split_witness:
  "\<not> ((0x1002010 :: 32 word) AND PIPE_CONTROL_CACHE_FLUSH_BITS sample_h \<noteq> 0 \<and>
       (0x1002010 :: 32 word) AND PIPE_CONTROL_CACHE_INVALIDATE_BITS sample_h \<noteq> 0) \<and>
   commands (iris_emit_pipe_control_flush sample_h busy_batch 0x1002010) =
     [\<lparr>pc_flags = 0x1002010, pc_bo = None, pc_offset = 0, pc_imm = 0\<rparr>]"
proof -
  have a: "\<not> ((0x1002010 :: 32 word) AND PIPE_CONTROL_CACHE_FLUSH_BITS sample_h \<noteq> 0 \<and>
       (0x1002010 :: 32 word) AND PIPE_CONTROL_CACHE_INVALIDATE_BITS sample_h \<noteq> 0)"
    by (simp add: sample_h_def)
  show ?thesis
    using a flush_no_split [OF a, of busy_batch]
    by (simp add: busy_batch_def)
qed

text \<open>
  C3: for every flag set \<open>G\<close>, \<^verbatim>\<open>iris_emit_end_of_pipe_sync\<close> adds exactly one raw
  PIPE_CONTROL to the batch: its flags are \<open>G\<close> together with CS_STALL and
  WRITE_IMMEDIATE, and its write target is the workaround buffer of the
  batch's screen, at offset 0, with the value 0. Nothing else of the batch
  changes.
\<close>

theorem end_of_pipe_sync_one_call:
  "iris_emit_end_of_pipe_sync h batch G =
     batch\<lparr>commands := commands batch @
       [\<lparr>pc_flags = G OR PIPE_CONTROL_CS_STALL h OR PIPE_CONTROL_WRITE_IMMEDIATE h,
         pc_bo = workaround_bo (screen batch), pc_offset = 0, pc_imm = 0\<rparr>]\<rparr>"
  by (simp add: iris_emit_end_of_pipe_sync_def iris_emit_pipe_control_write_def
      emit_raw_pipe_control_def)

subsection \<open>Barriers\<close>

text \<open>
  C4: \<^verbatim>\<open>iris_texture_barrier\<close> does this and nothing else. If the render batch
  contains a draw, or its render cache or its depth cache has entries, the
  render batch receives two flushes in order: first depth-cache flush,
  render-target flush and stall, then texture-cache invalidate. If the compute
  batch contains a draw, the compute batch receives a flush with stall and then
  a flush with texture-cache invalidate.
\<close>

theorem texture_barrier_algorithm:
  assumes "batches_wf h ice"
  shows "iris_texture_barrier h ice flags =
     ice\<lparr>batches := (batches ice)
       [IRIS_BATCH_RENDER h :=
          (if contains_draw (batches ice ! IRIS_BATCH_RENDER h) \<or>
              cache_render_entries (batches ice ! IRIS_BATCH_RENDER h) \<noteq> 0 \<or>
              cache_depth_entries (batches ice ! IRIS_BATCH_RENDER h) \<noteq> 0
           then iris_emit_pipe_control_flush h
                  (iris_emit_pipe_control_flush h (batches ice ! IRIS_BATCH_RENDER h)
                     (PIPE_CONTROL_DEPTH_CACHE_FLUSH h OR PIPE_CONTROL_RENDER_TARGET_FLUSH h OR
                      PIPE_CONTROL_CS_STALL h))
                  (PIPE_CONTROL_TEXTURE_CACHE_INVALIDATE h)
           else batches ice ! IRIS_BATCH_RENDER h),
        IRIS_BATCH_COMPUTE h :=
          (if contains_draw (batches ice ! IRIS_BATCH_COMPUTE h)
           then iris_emit_pipe_control_flush h
                  (iris_emit_pipe_control_flush h (batches ice ! IRIS_BATCH_COMPUTE h)
                     (PIPE_CONTROL_CS_STALL h))
                  (PIPE_CONTROL_TEXTURE_CACHE_INVALIDATE h)
           else batches ice ! IRIS_BATCH_COMPUTE h)]\<rparr>"
proof -
  have keep: "xs[r := a, c := xs ! c] = xs[r := a]"
    if "r \<noteq> c" for xs :: "iris_batch list" and r c a
    using that by (metis list_update_id nth_list_update_neq)
  show ?thesis
    using assms
    by (simp add: iris_texture_barrier_def batches_wf_def on_batch_def Let_def keep)
qed

text \<open>With a draw in both batches, down to the raw PIPE_CONTROLs.\<close>

theorem texture_barrier_algorithm_witness:
  "batches_wf sample_h \<lparr>batches = [busy_batch, busy_batch]\<rparr> \<and>
   batches (iris_texture_barrier sample_h \<lparr>batches = [busy_batch, busy_batch]\<rparr> 0) =
     [busy_batch\<lparr>commands :=
        [\<lparr>pc_flags = 0x1002010, pc_bo = None, pc_offset = 0, pc_imm = 0\<rparr>,
         \<lparr>pc_flags = 0x8000, pc_bo = None, pc_offset = 0, pc_imm = 0\<rparr>]\<rparr>,
      busy_batch\<lparr>commands :=
        [\<lparr>pc_flags = 0x10, pc_bo = None, pc_offset = 0, pc_imm = 0\<rparr>,
         \<lparr>pc_flags = 0x8000, pc_bo = None, pc_offset = 0, pc_imm = 0\<rparr>]\<rparr>]"
proof -
  have wf: "batches_wf sample_h \<lparr>batches = [busy_batch, busy_batch]\<rparr>"
    by (simp add: batches_wf_def sample_h_def)
  show ?thesis
    using wf texture_barrier_algorithm [OF wf, of 0]
    by (simp add: sample_h_def busy_batch_def iris_emit_pipe_control_flush_def
        emit_raw_pipe_control_def)
qed

text \<open>
  C5: \<^verbatim>\<open>iris_memory_barrier\<close> computes one flag set, the one that
  \<open>memory_barrier_bits_spec\<close> spells out in the words of the specification,
  and then gives every batch that contains a draw or whose render cache has
  entries exactly one flush with that flag set; every other batch is left as it
  is. The depth cache is not looked at.
\<close>

theorem memory_barrier_algorithm:
  assumes "length (batches ice) = IRIS_BATCH_COUNT h"
  shows "iris_memory_barrier h ice scope =
     ice\<lparr>batches :=
       map (\<lambda>b. if contains_draw b \<or> cache_render_entries b \<noteq> 0
                then iris_emit_pipe_control_flush h b (memory_barrier_bits_spec h scope)
                else b)
           (batches ice)\<rparr>"
proof -
  have "flush_or_skip h (memory_barrier_bits_spec h scope) =
      (\<lambda>b. if contains_draw b \<or> cache_render_entries b \<noteq> 0
            then iris_emit_pipe_control_flush h b (memory_barrier_bits_spec h scope)
            else b)"
    by (rule ext) (simp add: flush_or_skip_def)
  with iris_memory_barrier_map [OF assms, of scope] show ?thesis by simp
qed

text \<open>
  A texture barrier scope (\<open>0x80\<close>) on a batch with a draw and on a batch
  without one whose depth cache has three entries: the second is left alone.
\<close>

theorem memory_barrier_algorithm_witness:
  "length (batches \<lparr>batches = [busy_batch, idle_batch\<lparr>cache_depth_entries := 3\<rparr>]\<rparr>) =
     IRIS_BATCH_COUNT sample_h \<and>
   memory_barrier_bits_spec sample_h 0x80 = 0x8A010 \<and>
   batches (iris_memory_barrier sample_h
       \<lparr>batches = [busy_batch, idle_batch\<lparr>cache_depth_entries := 3\<rparr>]\<rparr> 0x80) =
     [busy_batch\<lparr>commands :=
        [\<lparr>pc_flags = 0x82210, pc_bo = Some 4096, pc_offset = 0, pc_imm = 0\<rparr>,
         \<lparr>pc_flags = 0x8000, pc_bo = None, pc_offset = 0, pc_imm = 0\<rparr>]\<rparr>,
      idle_batch\<lparr>cache_depth_entries := 3\<rparr>]"
proof -
  have len: "length (batches \<lparr>batches = [busy_batch, idle_batch\<lparr>cache_depth_entries := 3\<rparr>]\<rparr>) =
     IRIS_BATCH_COUNT sample_h"
    by (simp add: sample_h_def)
  have bits: "memory_barrier_bits_spec sample_h 0x80 = 0x8A010"
    by (simp add: memory_barrier_bits_spec_def sample_h_def)
  show ?thesis
    using len memory_barrier_algorithm [OF len, of "0x80"]
    by (simp add: bits)
      (simp add: sample_h_def busy_batch_def idle_batch_def iris_emit_pipe_control_flush_def
        iris_emit_end_of_pipe_sync_def iris_emit_pipe_control_write_def
        emit_raw_pipe_control_def)
qed

text \<open>
  C6: neither barrier emits anything into a batch without outstanding relevant
  work; such a batch is left exactly as it is, command stream included.
  \<^verbatim>\<open>iris_texture_barrier\<close> leaves the render batch alone when it contains no
  draw and has no render-cache and no depth-cache entries, whatever the state
  of the compute batch; it leaves the compute batch alone when that contains
  no draw, whatever the state of the render batch; and it never touches any
  other batch. In particular, when the render batch is idle in this sense and
  the compute batch contains no draw, the whole context stays as it is. For
  any scope, \<^verbatim>\<open>iris_memory_barrier\<close> leaves every batch that contains no draw
  and has no render-cache entries as it is.
\<close>

theorem barriers_skip_idle_batches:
  "(batches_wf h ice \<and>
    \<not> contains_draw (batches ice ! IRIS_BATCH_RENDER h) \<and>
    cache_render_entries (batches ice ! IRIS_BATCH_RENDER h) = 0 \<and>
    cache_depth_entries (batches ice ! IRIS_BATCH_RENDER h) = 0
    \<longrightarrow> batches (iris_texture_barrier h ice flags) ! IRIS_BATCH_RENDER h =
          batches ice ! IRIS_BATCH_RENDER h) \<and>
   (batches_wf h ice \<and>
    \<not> contains_draw (batches ice ! IRIS_BATCH_COMPUTE h)
    \<longrightarrow> batches (iris_texture_barrier h ice flags) ! IRIS_BATCH_COMPUTE h =
          batches ice ! IRIS_BATCH_COMPUTE h) \<and>
   (batches_wf h ice \<and> j < IRIS_BATCH_COUNT h \<and>
    j \<noteq> IRIS_BATCH_RENDER h \<and> j \<noteq> IRIS_BATCH_COMPUTE h
    \<longrightarrow> batches (iris_texture_barrier h ice flags) ! j = batches ice ! j) \<and>
   (batches_wf h ice \<and>
    \<not> contains_draw (batches ice ! IRIS_BATCH_RENDER h) \<and>
    cache_render_entries (batches ice ! IRIS_BATCH_RENDER h) = 0 \<and>
    cache_depth_entries (batches ice ! IRIS_BATCH_RENDER h) = 0 \<and>
    \<not> contains_draw (batches ice ! IRIS_BATCH_COMPUTE h)
    \<longrightarrow> iris_texture_barrier h ice flags = ice) \<and>
   (length (batches ice) = IRIS_BATCH_COUNT h \<and> i < IRIS_BATCH_COUNT h \<and>
    \<not> contains_draw (batches ice ! i) \<and> cache_render_entries (batches ice ! i) = 0
    \<longrightarrow> batches (iris_memory_barrier h ice scope) ! i = batches ice ! i)"
proof (intro conjI impI)
  assume a: "batches_wf h ice \<and>
    \<not> contains_draw (batches ice ! IRIS_BATCH_RENDER h) \<and>
    cache_render_entries (batches ice ! IRIS_BATCH_RENDER h) = 0 \<and>
    cache_depth_entries (batches ice ! IRIS_BATCH_RENDER h) = 0"
  then have wf: "batches_wf h ice" by simp
  from a show "batches (iris_texture_barrier h ice flags) ! IRIS_BATCH_RENDER h =
      batches ice ! IRIS_BATCH_RENDER h"
    by (simp add: texture_barrier_batches [OF wf] batches_wf_def)
next
  assume a: "batches_wf h ice \<and> \<not> contains_draw (batches ice ! IRIS_BATCH_COMPUTE h)"
  then have wf: "batches_wf h ice" by simp
  from a show "batches (iris_texture_barrier h ice flags) ! IRIS_BATCH_COMPUTE h =
      batches ice ! IRIS_BATCH_COMPUTE h"
    by (simp add: texture_barrier_batches [OF wf] batches_wf_def)
next
  assume a: "batches_wf h ice \<and> j < IRIS_BATCH_COUNT h \<and>
    j \<noteq> IRIS_BATCH_RENDER h \<and> j \<noteq> IRIS_BATCH_COMPUTE h"
  then have wf: "batches_wf h ice" by simp
  from a show "batches (iris_texture_barrier h ice flags) ! j = batches ice ! j"
    by (simp add: texture_barrier_batches [OF wf])
next
  assume "batches_wf h ice \<and>
    \<not> contains_draw (batches ice ! IRIS_BATCH_RENDER h) \<and>
    cache_render_entries (batches ice ! IRIS_BATCH_RENDER h) = 0 \<and>
    cache_depth_entries (batches ice ! IRIS_BATCH_RENDER h) = 0 \<and>
    \<not> contains_draw (batches ice ! IRIS_BATCH_COMPUTE h)"
  then show "iris_texture_barrier h ice flags = ice"
    by (simp add: iris_texture_barrier_def Let_def)
next
  assume a: "length (batches ice) = IRIS_BATCH_COUNT h \<and> i < IRIS_BATCH_COUNT h \<and>
    \<not> contains_draw (batches ice ! i) \<and> cache_render_entries (batches ice ! i) = 0"
  then have len: "length (batches ice) = IRIS_BATCH_COUNT h" by simp
  from a show "batches (iris_memory_barrier h ice scope) ! i = batches ice ! i"
    by (simp add: iris_memory_barrier_map [OF len] flush_or_skip_def)
qed

text \<open>
  The texture barrier with an idle render batch beside a busy compute batch,
  with an idle compute batch beside a busy render batch, with a third batch in
  an array of three, and with two idle batches; the memory barrier with a draw
  in the first batch only.
\<close>

theorem barriers_skip_idle_batches_witness:
  "(batches_wf sample_h \<lparr>batches = [idle_batch, busy_batch]\<rparr> \<and>
    \<not> contains_draw (batches \<lparr>batches = [idle_batch, busy_batch]\<rparr> ! IRIS_BATCH_RENDER sample_h) \<and>
    cache_render_entries (batches \<lparr>batches = [idle_batch, busy_batch]\<rparr> ! IRIS_BATCH_RENDER sample_h) = 0 \<and>
    cache_depth_entries (batches \<lparr>batches = [idle_batch, busy_batch]\<rparr> ! IRIS_BATCH_RENDER sample_h) = 0) \<and>
   commands (batches (iris_texture_barrier sample_h \<lparr>batches = [idle_batch, busy_batch]\<rparr> 0) !
     IRIS_BATCH_RENDER sample_h) = [] \<and>
   (batches_wf sample_h \<lparr>batches = [busy_batch, idle_batch]\<rparr> \<and>
    \<not> contains_draw (batches \<lparr>batches = [busy_batch, idle_batch]\<rparr> ! IRIS_BATCH_COMPUTE sample_h)) \<and>
   commands (batches (iris_texture_barrier sample_h \<lparr>batches = [busy_batch, idle_batch]\<rparr> 0) !
     IRIS_BATCH_COMPUTE sample_h) = [] \<and>
   (batches_wf (sample_h\<lparr>IRIS_BATCH_COUNT := 3\<rparr>) \<lparr>batches = [busy_batch, busy_batch, busy_batch]\<rparr> \<and>
    2 < IRIS_BATCH_COUNT (sample_h\<lparr>IRIS_BATCH_COUNT := 3\<rparr>) \<and>
    2 \<noteq> IRIS_BATCH_RENDER (sample_h\<lparr>IRIS_BATCH_COUNT := 3\<rparr>) \<and>
    2 \<noteq> IRIS_BATCH_COMPUTE (sample_h\<lparr>IRIS_BATCH_COUNT := 3\<rparr>)) \<and>
   commands (batches (iris_texture_barrier (sample_h\<lparr>IRIS_BATCH_COUNT := 3\<rparr>)
     \<lparr>batches = [busy_batch, busy_batch, busy_batch]\<rparr> 0) ! 2) = [] \<and>
   (batches_wf sample_h \<lparr>batches = [idle_batch, idle_batch]\<rparr> \<and>
    \<not> contains_draw (batches \<lparr>batches = [idle_batch, idle_batch]\<rparr> ! IRIS_BATCH_RENDER sample_h) \<and>
    cache_render_entries (batches \<lparr>batches = [idle_batch, idle_batch]\<rparr> ! IRIS_BATCH_RENDER sample_h) = 0 \<and>
    cache_depth_entries (batches \<lparr>batches = [idle_batch, idle_batch]\<rparr> ! IRIS_BATCH_RENDER sample_h) = 0 \<and>
    \<not> contains_draw (batches \<lparr>batches = [idle_batch, idle_batch]\<rparr> ! IRIS_BATCH_COMPUTE sample_h)) \<and>
   iris_texture_barrier sample_h \<lparr>batches = [idle_batch, idle_batch]\<rparr> 0 =
     \<lparr>batches = [idle_batch, idle_batch]\<rparr> \<and>
   (length (batches \<lparr>batches = [busy_batch, idle_batch]\<rparr>) = IRIS_BATCH_COUNT sample_h \<and>
    1 < IRIS_BATCH_COUNT sample_h \<and>
    \<not> contains_draw (batches \<lparr>batches = [busy_batch, idle_batch]\<rparr> ! 1) \<and>
    cache_render_entries (batches \<lparr>batches = [busy_batch, idle_batch]\<rparr> ! 1) = 0) \<and>
   commands (batches (iris_memory_barrier sample_h \<lparr>batches = [busy_batch, idle_batch]\<rparr> 0x80) ! 1) = []"
proof -
  have r: "batches_wf sample_h \<lparr>batches = [idle_batch, busy_batch]\<rparr> \<and>
    \<not> contains_draw (batches \<lparr>batches = [idle_batch, busy_batch]\<rparr> ! IRIS_BATCH_RENDER sample_h) \<and>
    cache_render_entries (batches \<lparr>batches = [idle_batch, busy_batch]\<rparr> ! IRIS_BATCH_RENDER sample_h) = 0 \<and>
    cache_depth_entries (batches \<lparr>batches = [idle_batch, busy_batch]\<rparr> ! IRIS_BATCH_RENDER sample_h) = 0"
    by (simp add: batches_wf_def sample_h_def idle_batch_def)
  have c: "batches_wf sample_h \<lparr>batches = [busy_batch, idle_batch]\<rparr> \<and>
    \<not> contains_draw (batches \<lparr>batches = [busy_batch, idle_batch]\<rparr> ! IRIS_BATCH_COMPUTE sample_h)"
    by (simp add: batches_wf_def sample_h_def idle_batch_def)
  have o: "batches_wf (sample_h\<lparr>IRIS_BATCH_COUNT := 3\<rparr>) \<lparr>batches = [busy_batch, busy_batch, busy_batch]\<rparr> \<and>
    2 < IRIS_BATCH_COUNT (sample_h\<lparr>IRIS_BATCH_COUNT := 3\<rparr>) \<and>
    2 \<noteq> IRIS_BATCH_RENDER (sample_h\<lparr>IRIS_BATCH_COUNT := 3\<rparr>) \<and>
    2 \<noteq> IRIS_BATCH_COMPUTE (sample_h\<lparr>IRIS_BATCH_COUNT := 3\<rparr>)"
    by (simp add: batches_wf_def sample_h_def)
  have t: "batches_wf sample_h \<lparr>batches = [idle_batch, idle_batch]\<rparr> \<and>
    \<not> contains_draw (batches \<lparr>batches = [idle_batch, idle_batch]\<rparr> ! IRIS_BATCH_RENDER sample_h) \<and>
    cache_render_entries (batches \<lparr>batches = [idle_batch, idle_batch]\<rparr> ! IRIS_BATCH_RENDER sample_h) = 0 \<and>
    cache_depth_entries (batches \<lparr>batches = [idle_batch, idle_batch]\<rparr> ! IRIS_BATCH_RENDER sample_h) = 0 \<and>
    \<not> contains_draw (batches \<lparr>batches = [idle_batch, idle_batch]\<rparr> ! IRIS_BATCH_COMPUTE sample_h)"
    by (simp add: batches_wf_def sample_h_def idle_batch_def)
  have m: "length (batches \<lparr>batches = [busy_batch, idle_batch]\<rparr>) = IRIS_BATCH_COUNT sample_h \<and>
    1 < IRIS_BATCH_COUNT sample_h \<and>
    \<not> contains_draw (batches \<lparr>batches = [busy_batch, idle_batch]\<rparr> ! 1) \<and>
    cache_render_entries (batches \<lparr>batches = [busy_batch, idle_batch]\<rparr> ! 1) = 0"
    by (simp add: sample_h_def idle_batch_def)
  have "batches (iris_texture_barrier sample_h \<lparr>batches = [idle_batch, busy_batch]\<rparr> 0) !
      IRIS_BATCH_RENDER sample_h =
      batches \<lparr>batches = [idle_batch, busy_batch]\<rparr> ! IRIS_BATCH_RENDER sample_h"
    using r barriers_skip_idle_batches
      [where ice = "\<lparr>batches = [idle_batch, busy_batch]\<rparr>" and h = sample_h and flags = 0]
    by blast
  then have R: "commands (batches (iris_texture_barrier sample_h
      \<lparr>batches = [idle_batch, busy_batch]\<rparr> 0) ! IRIS_BATCH_RENDER sample_h) = []"
    by (simp add: sample_h_def idle_batch_def)
  have "batches (iris_texture_barrier sample_h \<lparr>batches = [busy_batch, idle_batch]\<rparr> 0) !
      IRIS_BATCH_COMPUTE sample_h =
      batches \<lparr>batches = [busy_batch, idle_batch]\<rparr> ! IRIS_BATCH_COMPUTE sample_h"
    using c barriers_skip_idle_batches
      [where ice = "\<lparr>batches = [busy_batch, idle_batch]\<rparr>" and h = sample_h and flags = 0]
    by blast
  then have C: "commands (batches (iris_texture_barrier sample_h
      \<lparr>batches = [busy_batch, idle_batch]\<rparr> 0) ! IRIS_BATCH_COMPUTE sample_h) = []"
    by (simp add: sample_h_def idle_batch_def)
  have "batches (iris_texture_barrier (sample_h\<lparr>IRIS_BATCH_COUNT := 3\<rparr>)
      \<lparr>batches = [busy_batch, busy_batch, busy_batch]\<rparr> 0) ! 2 =
      batches \<lparr>batches = [busy_batch, busy_batch, busy_batch]\<rparr> ! 2"
    using o barriers_skip_idle_batches
      [where ice = "\<lparr>batches = [busy_batch, busy_batch, busy_batch]\<rparr>"
        and h = "sample_h\<lparr>IRIS_BATCH_COUNT := 3\<rparr>" and flags = 0 and j = 2]
    by blast
  then have O: "commands (batches (iris_texture_barrier (sample_h\<lparr>IRIS_BATCH_COUNT := 3\<rparr>)
      \<lparr>batches = [busy_batch, busy_batch, busy_batch]\<rparr> 0) ! 2) = []"
    by (simp add: busy_batch_def)
  have T: "iris_texture_barrier sample_h \<lparr>batches = [idle_batch, idle_batch]\<rparr> 0 =
      \<lparr>batches = [idle_batch, idle_batch]\<rparr>"
    using t barriers_skip_idle_batches
      [where ice = "\<lparr>batches = [idle_batch, idle_batch]\<rparr>" and h = sample_h and flags = 0]
    by blast
  have "batches (iris_memory_barrier sample_h \<lparr>batches = [busy_batch, idle_batch]\<rparr> 0x80) ! 1 =
      batches \<lparr>batches = [busy_batch, idle_batch]\<rparr> ! 1"
    using m barriers_skip_idle_batches
      [where ice = "\<lparr>batches = [busy_batch, idle_batch]\<rparr>" and h = sample_h and i = 1
        and scope = "0x80"]
    by blast
  then have M: "commands (batches (iris_memory_barrier sample_h
      \<lparr>batches = [busy_batch, idle_batch]\<rparr> 0x80) ! 1) = []"
    by (simp add: idle_batch_def)
  show ?thesis
    using r R c C o O t T m M by blast
qed

text \<open>
  C7: when the memory barrier is asked for a scope that includes texture, a
  batch that contains a draw receives exactly two raw PIPE_CONTROLs. The
  earlier one holds render-target flush and no bit of texture-cache invalidate;
  the later one holds texture-cache invalidate and no bit of render-target
  flush. So the flush comes strictly before the invalidate, and no single
  PIPE_CONTROL holds both. This rests on the grouping of the flags that the
  specification gives for the missing header.
\<close>

theorem memory_barrier_texture_split:
  assumes groups: "pipe_control_groups h"
    and len: "length (batches ice) = IRIS_BATCH_COUNT h"
    and i: "i < IRIS_BATCH_COUNT h"
    and busy: "contains_draw (batches ice ! i)"
    and tex: "scope AND PIPE_BARRIER_TEXTURE h \<noteq> 0"
  shows "\<exists>c1 c2.
     commands (batches (iris_memory_barrier h ice scope) ! i) =
       commands (batches ice ! i) @ [c1, c2] \<and>
     pc_flags c1 AND PIPE_CONTROL_RENDER_TARGET_FLUSH h = PIPE_CONTROL_RENDER_TARGET_FLUSH h \<and>
     pc_flags c1 AND PIPE_CONTROL_TEXTURE_CACHE_INVALIDATE h = 0 \<and>
     pc_flags c2 AND PIPE_CONTROL_TEXTURE_CACHE_INVALIDATE h =
       PIPE_CONTROL_TEXTURE_CACHE_INVALIDATE h \<and>
     pc_flags c2 AND PIPE_CONTROL_RENDER_TARGET_FLUSH h = 0 \<and>
     PIPE_CONTROL_RENDER_TARGET_FLUSH h \<noteq> 0 \<and>
     PIPE_CONTROL_TEXTURE_CACHE_INVALIDATE h \<noteq> 0"
proof -
  let ?bits = "memory_barrier_bits_spec h scope"
  let ?F = "PIPE_CONTROL_CACHE_FLUSH_BITS h"
  let ?I = "PIPE_CONTROL_CACHE_INVALIDATE_BITS h"
  let ?S = "PIPE_CONTROL_CS_STALL h"
  let ?W = "PIPE_CONTROL_WRITE_IMMEDIATE h"
  let ?R = "PIPE_CONTROL_RENDER_TARGET_FLUSH h"
  let ?T = "PIPE_CONTROL_TEXTURE_CACHE_INVALIDATE h"
  let ?b = "batches ice ! i"
  from groups have R0: "?R \<noteq> 0" and T0: "?T \<noteq> 0"
    and RF: "?R AND ?F = ?R" and TI: "?T AND ?I = ?T"
    and FI: "?F AND ?I = 0" and SW: "(?S OR ?W) AND (?F OR ?I) = 0"
    by (simp_all add: pipe_control_groups_def)
  have TF: "?T AND ?F = 0"
    using TI FI by (rule word_sub_disjoint)
  have SI: "?S AND ?I = 0" and WI: "?W AND ?I = 0"
    using SW by (auto simp: bit_eq_iff bit_simps)
  have TS: "?T AND ?S = 0"
    using TI SI by (rule word_sub_disjoint)
  have TW: "?T AND ?W = 0"
    using TI WI by (rule word_sub_disjoint)
  note bR = texture_scope_bits(1) [OF tex] and bT = texture_scope_bits(2) [OF tex]
  have f: "?bits AND ?F \<noteq> 0"
    using bR RF R0 by (rule word_sub_nonzero)
  have v: "?bits AND ?I \<noteq> 0"
    using bT TI T0 by (rule word_sub_nonzero)
  let ?c1 = "\<lparr>pc_flags = (?bits AND ?F) OR ?S OR ?W,
              pc_bo = workaround_bo (screen ?b), pc_offset = 0, pc_imm = 0\<rparr>"
  let ?c2 = "\<lparr>pc_flags = ?bits AND NOT (?F OR ?S),
              pc_bo = None, pc_offset = 0, pc_imm = 0\<rparr>"
  have "batches (iris_memory_barrier h ice scope) ! i =
      iris_emit_pipe_control_flush h ?b ?bits"
    using len i busy by (simp add: iris_memory_barrier_map flush_or_skip_def)
  then have "commands (batches (iris_memory_barrier h ice scope) ! i) =
      commands ?b @ [?c1, ?c2]"
    using f v
    by (simp add: iris_emit_pipe_control_flush_def iris_emit_end_of_pipe_sync_def
        iris_emit_pipe_control_write_def emit_raw_pipe_control_def)
  moreover have "pc_flags ?c1 AND ?R = ?R"
    using sync_flags_keep [OF bR RF] by simp
  moreover have "pc_flags ?c1 AND ?T = 0"
    using sync_flags_lack [OF TF TS TW] by simp
  moreover have "pc_flags ?c2 AND ?T = ?T"
    using rest_flags_keep [OF bT TF TS] by simp
  moreover have "pc_flags ?c2 AND ?R = 0"
    using rest_flags_lack [OF RF] by simp
  ultimately show ?thesis
    using R0 T0 by blast
qed

text \<open>The texture scope \<open>0x80\<close> on the first of two batches, which has a draw.\<close>

theorem memory_barrier_texture_split_witness:
  "pipe_control_groups sample_h \<and>
   length (batches \<lparr>batches = [busy_batch, idle_batch]\<rparr>) = IRIS_BATCH_COUNT sample_h \<and>
   0 < IRIS_BATCH_COUNT sample_h \<and>
   contains_draw (batches \<lparr>batches = [busy_batch, idle_batch]\<rparr> ! 0) \<and>
   (0x80 :: 32 word) AND PIPE_BARRIER_TEXTURE sample_h \<noteq> 0 \<and>
   (\<exists>c1 c2.
     commands (batches (iris_memory_barrier sample_h
         \<lparr>batches = [busy_batch, idle_batch]\<rparr> 0x80) ! 0) =
       commands (batches \<lparr>batches = [busy_batch, idle_batch]\<rparr> ! 0) @ [c1, c2] \<and>
     pc_flags c1 AND PIPE_CONTROL_RENDER_TARGET_FLUSH sample_h =
       PIPE_CONTROL_RENDER_TARGET_FLUSH sample_h \<and>
     pc_flags c1 AND PIPE_CONTROL_TEXTURE_CACHE_INVALIDATE sample_h = 0 \<and>
     pc_flags c2 AND PIPE_CONTROL_TEXTURE_CACHE_INVALIDATE sample_h =
       PIPE_CONTROL_TEXTURE_CACHE_INVALIDATE sample_h \<and>
     pc_flags c2 AND PIPE_CONTROL_RENDER_TARGET_FLUSH sample_h = 0 \<and>
     PIPE_CONTROL_RENDER_TARGET_FLUSH sample_h \<noteq> 0 \<and>
     PIPE_CONTROL_TEXTURE_CACHE_INVALIDATE sample_h \<noteq> 0)"
proof -
  have g: "pipe_control_groups sample_h"
    by (simp add: pipe_control_groups_def sample_h_def)
  have len: "length (batches \<lparr>batches = [busy_batch, idle_batch]\<rparr>) =
      IRIS_BATCH_COUNT sample_h"
    by (simp add: sample_h_def)
  have i: "0 < IRIS_BATCH_COUNT sample_h"
    by (simp add: sample_h_def)
  have busy: "contains_draw (batches \<lparr>batches = [busy_batch, idle_batch]\<rparr> ! 0)"
    by (simp add: busy_batch_def)
  have tex: "(0x80 :: 32 word) AND PIPE_BARRIER_TEXTURE sample_h \<noteq> 0"
    by (simp add: sample_h_def)
  show ?thesis
    using g len i busy tex memory_barrier_texture_split [OF g len i busy tex]
    by blast
qed

subsection \<open>What reaches the raw emitter\<close>

text \<open>
  C8: \<^verbatim>\<open>iris_emit_pipe_control_write\<close> adds exactly one raw PIPE_CONTROL to the
  batch, carrying the flags, buffer, offset and immediate value of the caller
  unchanged, whatever the flags are (also when they hold both flush and
  invalidate bits); nothing else of the batch changes.
\<close>

theorem pipe_control_write_one_call:
  "iris_emit_pipe_control_write batch flags bo offset imm =
     batch\<lparr>commands := commands batch @
       [\<lparr>pc_flags = flags, pc_bo = bo, pc_offset = offset, pc_imm = imm\<rparr>]\<rparr>"
  by (simp add: iris_emit_pipe_control_write_def emit_raw_pipe_control_def)

text \<open>
  C9: what \<^verbatim>\<open>iris_emit_pipe_control_flush\<close> and \<^verbatim>\<open>iris_emit_end_of_pipe_sync\<close>
  emit depends on the flags only, not on the state of the batch: replace
  \<^verbatim>\<open>contains_draw\<close>, the two cache entry counts and the commands emitted so far
  by any other values, and the same raw PIPE_CONTROLs, flags and write targets
  alike, are emitted. Both operations only add to the end of the command stream.
\<close>

theorem flush_reads_no_batch_state:
  "emitted_by (\<lambda>b. iris_emit_pipe_control_flush h b F)
     (batch\<lparr>contains_draw := d, cache_render_entries := r, cache_depth_entries := e,
            commands := cs\<rparr>) =
   emitted_by (\<lambda>b. iris_emit_pipe_control_flush h b F) batch \<and>
   emitted_by (\<lambda>b. iris_emit_end_of_pipe_sync h b F)
     (batch\<lparr>contains_draw := d, cache_render_entries := r, cache_depth_entries := e,
            commands := cs\<rparr>) =
   emitted_by (\<lambda>b. iris_emit_end_of_pipe_sync h b F) batch \<and>
   commands (iris_emit_pipe_control_flush h batch F) =
     commands batch @ emitted_by (\<lambda>b. iris_emit_pipe_control_flush h b F) batch \<and>
   commands (iris_emit_end_of_pipe_sync h batch F) =
     commands batch @ emitted_by (\<lambda>b. iris_emit_end_of_pipe_sync h b F) batch"
  by (simp add: emitted_by_def iris_emit_pipe_control_flush_def iris_emit_end_of_pipe_sync_def
      iris_emit_pipe_control_write_def emit_raw_pipe_control_def)

text \<open>
  C10: for every flag set \<open>F\<close>, also one that holds WRITE_IMMEDIATE or another
  write bit, the raw PIPE_CONTROL that \<^verbatim>\<open>iris_emit_pipe_control_flush\<close> emits
  itself, the last one on either path, has no write target: buffer
  \<^verbatim>\<open>NULL\<close>, offset 0, value 0. Whatever else the command stream holds
  afterwards was there before or was emitted by
  \<^verbatim>\<open>iris_emit_pipe_control_write\<close>, for the end-of-pipe sync of the split.
\<close>

theorem flush_final_call_no_target:
  "last (commands (iris_emit_pipe_control_flush h batch F)) =
     \<lparr>pc_flags =
        (if F AND PIPE_CONTROL_CACHE_FLUSH_BITS h \<noteq> 0 \<and>
            F AND PIPE_CONTROL_CACHE_INVALIDATE_BITS h \<noteq> 0
         then F AND NOT (PIPE_CONTROL_CACHE_FLUSH_BITS h OR PIPE_CONTROL_CS_STALL h)
         else F),
      pc_bo = None, pc_offset = 0, pc_imm = 0\<rparr> \<and>
   butlast (commands (iris_emit_pipe_control_flush h batch F)) =
     commands
       (if F AND PIPE_CONTROL_CACHE_FLUSH_BITS h \<noteq> 0 \<and>
           F AND PIPE_CONTROL_CACHE_INVALIDATE_BITS h \<noteq> 0
        then iris_emit_pipe_control_write batch
               ((F AND PIPE_CONTROL_CACHE_FLUSH_BITS h) OR PIPE_CONTROL_CS_STALL h OR
                PIPE_CONTROL_WRITE_IMMEDIATE h)
               (workaround_bo (screen batch)) 0 0
        else batch)"
  by (simp add: iris_emit_pipe_control_flush_def iris_emit_end_of_pipe_sync_def
      iris_emit_pipe_control_write_def emit_raw_pipe_control_def butlast_append)

end
